theory Spec2Isabelle
  imports Complex_Main
begin

section \<open>Double-precision values\<close>

text \<open>
  The C++ type \<open>double\<close> (and \<open>float\<close>) is modelled by the finite values together
  with the three special values of IEEE 754 arithmetic. The special values follow the
  standard: \<open>1/0\<close> is an infinity, \<open>0 * \<infinity>\<close>, \<open>\<infinity> - \<infinity>\<close>, \<open>0/0\<close> and \<open>\<infinity>/\<infinity>\<close>
  are NaN, NaN is absorbing, and every ordered comparison with NaN is false.
  Arithmetic on finite values is exact: rounding, overflow of a finite result to an
  infinity, and the sign of zero (zero behaves as \<open>+0\<close>) are outside the model.
\<close>

datatype double = Fin real | PInf | NInf | NaN

fun isnan :: "double \<Rightarrow> bool" where
  "isnan NaN = True"
| "isnan _ = False"

fun isinf :: "double \<Rightarrow> bool" where
  "isinf PInf = True"
| "isinf NInf = True"
| "isinf _ = False"

fun isfinite :: "double \<Rightarrow> bool" where
  "isfinite (Fin _) = True"
| "isfinite _ = False"

instantiation double :: "{uminus, plus, minus, times, inverse, ord}"
begin

fun uminus_double :: "double \<Rightarrow> double" where
  "- Fin a = Fin (- a)"
| "- PInf = NInf"
| "- NInf = PInf"
| "- NaN = NaN"

fun plus_double :: "double \<Rightarrow> double \<Rightarrow> double" where
  "Fin a + Fin b = Fin (a + b)"
| "NaN + _ = NaN"
| "_ + NaN = NaN"
| "PInf + NInf = NaN"
| "NInf + PInf = NaN"
| "PInf + _ = PInf"
| "_ + PInf = PInf"
| "NInf + _ = NInf"
| "_ + NInf = NInf"

definition minus_double :: "double \<Rightarrow> double \<Rightarrow> double" where
  "minus_double a b = a + (- b)"

fun times_double :: "double \<Rightarrow> double \<Rightarrow> double" where
  "Fin a * Fin b = Fin (a * b)"
| "NaN * _ = NaN"
| "_ * NaN = NaN"
| "PInf * Fin b = (if b = 0 then NaN else if 0 < b then PInf else NInf)"
| "NInf * Fin b = (if b = 0 then NaN else if 0 < b then NInf else PInf)"
| "Fin a * PInf = (if a = 0 then NaN else if 0 < a then PInf else NInf)"
| "Fin a * NInf = (if a = 0 then NaN else if 0 < a then NInf else PInf)"
| "PInf * PInf = PInf"
| "PInf * NInf = NInf"
| "NInf * PInf = NInf"
| "NInf * NInf = PInf"

fun divide_double :: "double \<Rightarrow> double \<Rightarrow> double" where
  "divide_double (Fin a) (Fin b) =
     (if b = 0 then (if a = 0 then NaN else if 0 < a then PInf else NInf)
      else Fin (a / b))"
| "divide_double NaN _ = NaN"
| "divide_double _ NaN = NaN"
| "divide_double (Fin a) PInf = Fin 0"
| "divide_double (Fin a) NInf = Fin 0"
| "divide_double PInf (Fin b) = (if 0 \<le> b then PInf else NInf)"
| "divide_double NInf (Fin b) = (if 0 \<le> b then NInf else PInf)"
| "divide_double PInf PInf = NaN"
| "divide_double PInf NInf = NaN"
| "divide_double NInf PInf = NaN"
| "divide_double NInf NInf = NaN"

definition inverse_double :: "double \<Rightarrow> double" where
  "inverse_double a = divide (Fin 1) a"

fun less_eq_double :: "double \<Rightarrow> double \<Rightarrow> bool" where
  "Fin a \<le> Fin b = (a \<le> b)"
| "NaN \<le> _ = False"
| "_ \<le> NaN = False"
| "NInf \<le> _ = True"
| "_ \<le> PInf = True"
| "PInf \<le> _ = False"
| "Fin a \<le> NInf = False"

fun less_double :: "double \<Rightarrow> double \<Rightarrow> bool" where
  "Fin a < Fin b = (a < b)"
| "NaN < _ = False"
| "_ < NaN = False"
| "NInf < NInf = False"
| "NInf < _ = True"
| "PInf < _ = False"
| "Fin a < PInf = True"
| "Fin a < NInf = False"

instance ..

end

section \<open>Fixed-size vectors and matrices (Eigen)\<close>

text \<open>
  \<open>Eigen::Vector3d\<close>, \<open>Eigen::Vector4d\<close>, \<open>Eigen::Matrix3d\<close> and
  \<open>Eigen::Matrix<double,3,4>\<close>. The selectors \<open>x3, y3, z3\<close> stand for the coefficient
  accesses \<open>v(0), v(1), v(2)\<close>; a matrix is given by its rows, so \<open>M(1,1)\<close> is
  \<open>y3 (m1 M)\<close>. Sums are taken from left to right.
\<close>

datatype Vector3d = Vector3d (x3: double) (y3: double) (z3: double)

datatype Vector4d = Vector4d (x4: double) (y4: double) (z4: double) (w4: double)

datatype Matrix3d = Matrix3d (m0: Vector3d) (m1: Vector3d) (m2: Vector3d)

datatype Matrix34d = Matrix34d (r0: Vector4d) (r1: Vector4d) (r2: Vector4d)

definition dot3 :: "Vector3d \<Rightarrow> Vector3d \<Rightarrow> double" where
  "dot3 a b = x3 a * x3 b + y3 a * y3 b + z3 a * z3 b"

definition dot4 :: "Vector4d \<Rightarrow> Vector4d \<Rightarrow> double" where
  "dot4 a b = x4 a * x4 b + y4 a * y4 b + z4 a * z4 b + w4 a * w4 b"

definition mul33 :: "Matrix3d \<Rightarrow> Vector3d \<Rightarrow> Vector3d" where
  "mul33 M v = Vector3d (dot3 (m0 M) v) (dot3 (m1 M) v) (dot3 (m2 M) v)"

definition mul34 :: "Matrix34d \<Rightarrow> Vector4d \<Rightarrow> Vector3d" where
  "mul34 M v = Vector3d (dot4 (r0 M) v) (dot4 (r1 M) v) (dot4 (r2 M) v)"

definition neg3 :: "Vector3d \<Rightarrow> Vector3d" where
  "neg3 v = Vector3d (- x3 v) (- y3 v) (- z3 v)"

definition sub3 :: "Vector3d \<Rightarrow> Vector3d \<Rightarrow> Vector3d" where
  "sub3 a b = Vector3d (x3 a - x3 b) (y3 a - y3 b) (z3 a - z3 b)"

definition sub4 :: "Vector4d \<Rightarrow> Vector4d \<Rightarrow> Vector4d" where
  "sub4 a b = Vector4d (x4 a - x4 b) (y4 a - y4 b) (z4 a - z4 b) (w4 a - w4 b)"

definition start3 :: "Vector4d \<Rightarrow> Vector3d" where
  \<comment> \<open>\<open>v.start<3>()\<close>: the first three coefficients\<close>
  "start3 v = Vector3d (x4 v) (y4 v) (z4 v)"

definition start2 :: "Vector3d \<Rightarrow> double list" where
  \<comment> \<open>\<open>v.start<2>()\<close>: the first two coefficients\<close>
  "start2 v = [x3 v, y3 v]"

definition coeffs3 :: "Vector3d \<Rightarrow> double list" where
  "coeffs3 v = [x3 v, y3 v, z3 v]"

definition col34 :: "Matrix34d \<Rightarrow> nat \<Rightarrow> Vector3d" where
  \<comment> \<open>\<open>M.col(j)\<close> for \<open>j < 4\<close>\<close>
  "col34 M j =
     (if j = 0 then Vector3d (x4 (r0 M)) (x4 (r1 M)) (x4 (r2 M))
      else if j = 1 then Vector3d (y4 (r0 M)) (y4 (r1 M)) (y4 (r2 M))
      else if j = 2 then Vector3d (z4 (r0 M)) (z4 (r1 M)) (z4 (r2 M))
      else Vector3d (w4 (r0 M)) (w4 (r1 M)) (w4 (r2 M)))"

definition squaredNorm :: "double list \<Rightarrow> double" where
  "squaredNorm v = foldl (+) (Fin 0) (map (\<lambda>c. c * c) v)"

subsection \<open>Dynamically shaped blocks: Jacobians and Hessian blocks\<close>

text \<open>
  The Jacobians (\<open>2\<times>6\<close>, \<open>2\<times>3\<close>, \<open>3\<times>6\<close>, \<open>3\<times>3\<close>) and the blocks cached in a
  projection are kept as lists of rows, so that one transposition and one product
  serve all shapes.
\<close>

type_synonym matrix = "double list list"

definition dot :: "double list \<Rightarrow> double list \<Rightarrow> double" where
  "dot a b = foldl (+) (Fin 0) (map2 (*) a b)"

definition ncols :: "matrix \<Rightarrow> nat" where
  "ncols A = (case A of [] \<Rightarrow> 0 | r # _ \<Rightarrow> length r)"

definition column :: "matrix \<Rightarrow> nat \<Rightarrow> double list" where
  "column A j = map (\<lambda>r. r ! j) A"

definition transpose_m :: "matrix \<Rightarrow> matrix" where
  "transpose_m A = map (column A) [0..<ncols A]"

definition mat_vec :: "matrix \<Rightarrow> double list \<Rightarrow> double list" where
  "mat_vec A v = map (\<lambda>r. dot r v) A"

definition mat_mul :: "matrix \<Rightarrow> matrix \<Rightarrow> matrix" where
  "mat_mul A B = map (\<lambda>r. map (\<lambda>j. dot r (column B j)) [0..<ncols B]) A"

section \<open>Nodes, points and projections (sba)\<close>

text \<open>
  A \<open>Node\<close> carries the fields that \<open>proj.cpp\<close> reads. A \<open>Point\<close> is a
  homogeneous \<open>Vector4d\<close>.
\<close>

record Node =
  trans_n :: Vector4d
  w2n :: Matrix34d
  w2i :: Matrix34d
  Kcam :: Matrix3d
  baseline :: double
  dRdx :: Matrix3d
  dRdy :: Matrix3d
  dRdz :: Matrix3d

type_synonym Point = Vector4d

record Proj =
  ndi :: int
  kp :: Vector3d
  stereo :: bool
  isValid :: bool
  err :: Vector3d
  Hpp :: matrix
  Hcc :: matrix
  Hpc :: matrix
  JcTE :: "double list"
  Bp :: "double list"

text \<open>
  What the translation unit takes from outside \<open>proj.cpp\<close>: the constant
  \<open>qScale\<close> (declared in a header), the preprocessor symbol \<open>DEBUG\<close>, and the
  third coefficient that Eigen leaves in the three-vector \<open>err\<close> when
  \<open>calcErrMono_\<close> assigns it the two-coefficient expression \<open>p1.start(2)/p1(2)\<close>
  (given the previous \<open>err\<close> and \<open>p1\<close>).
\<close>

record build =
  qScale :: double
  DEBUG :: bool
  monoErr2 :: "Vector3d \<Rightarrow> Vector3d \<Rightarrow> double"

text \<open>The constructors \<open>Proj(ci, q, stereo)\<close> and \<open>Proj(ci, q)\<close> set four fields of
  the storage \<open>u\<close> they are given and leave the others as they are.\<close>

definition Proj3 :: "Proj \<Rightarrow> int \<Rightarrow> Vector3d \<Rightarrow> bool \<Rightarrow> Proj" where
  "Proj3 u ci q st = u\<lparr>ndi := ci, kp := q, stereo := st, isValid := True\<rparr>"

definition Proj2 :: "Proj \<Rightarrow> int \<Rightarrow> double \<times> double \<Rightarrow> Proj" where
  "Proj2 u ci q =
     u\<lparr>ndi := ci, kp := Vector3d (fst q) (snd q) (Fin 0), stereo := False, isValid := True\<rparr>"

subsection \<open>Residuals\<close>


text \<open>\<open>calcErr\<close> returns the cost together with the projection whose \<open>err\<close> it has
  overwritten. The \<open>printf\<close> calls under \<open>DEBUG\<close> change neither. The private
  members \<open>calcErrMono_\<close>, \<open>calcErrStereo_\<close>, \<open>setJacobiansMono_\<close> and
  \<open>setJacobiansStereo_\<close> are written here without the trailing underscore.\<close>

definition calcErrMono :: "build \<Rightarrow> Proj \<Rightarrow> Node \<Rightarrow> Point \<Rightarrow> double \<times> Proj" where
  "calcErrMono cfg prj nd pt =
     (let p1 = mul34 (w2i nd) pt;
          e1 = Vector3d (x3 p1 / z3 p1) (y3 p1 / z3 p1) (monoErr2 cfg (err prj) p1)
      in if z3 p1 \<le> Fin 0
         then (Fin 0, prj\<lparr>err := Vector3d (Fin 0) (Fin 0) (Fin 0)\<rparr>)
         else (let e2 = sub3 e1 (kp prj)
               in (squaredNorm (start2 e2), prj\<lparr>err := e2\<rparr>)))"

definition calcErrStereo :: "build \<Rightarrow> Proj \<Rightarrow> Node \<Rightarrow> Point \<Rightarrow> double \<times> Proj" where
  "calcErrStereo cfg prj nd pt =
     (let p1 = mul34 (w2i nd) pt;
          p2 = mul34 (w2n nd) pt;
          pb = Vector3d (baseline nd) (Fin 0) (Fin 0);
          invp1 = Fin 1 / z3 p1;
          p2' = mul33 (Kcam nd) (sub3 p2 pb);
          e1 = Vector3d (x3 p1 * invp1) (y3 p1 * invp1) (x3 p2' / z3 p2')
      in if z3 p1 \<le> Fin 0
         then (Fin 0, prj\<lparr>err := Vector3d (Fin 0) (Fin 0) (Fin 0)\<rparr>)
         else (let e2 = sub3 e1 (kp prj)
               in (squaredNorm (coeffs3 e2), prj\<lparr>err := e2\<rparr>)))"

definition calcErr :: "build \<Rightarrow> Proj \<Rightarrow> Node \<Rightarrow> Point \<Rightarrow> double \<times> Proj" where
  "calcErr cfg prj nd pt =
     (if stereo prj then calcErrStereo cfg prj nd pt else calcErrMono cfg prj nd pt)"

subsection \<open>Jacobians\<close>

text \<open>
  Every entry of the Jacobians has one of two shapes: \<open>(pz*dp(0) - px*dp(2))*s\<close> in
  the rows of a horizontal image coordinate and \<open>(pz*dp(1) - py*dp(2))*s\<close> in the row
  of the vertical one, for a direction \<open>dp\<close> and a scale \<open>s\<close>. The right-image row of
  the stereo model has the first shape with \<open>px - b\<close> in place of \<open>px\<close>.
\<close>

definition jac_u :: "double \<Rightarrow> double \<Rightarrow> Vector3d \<Rightarrow> double \<Rightarrow> double" where
  "jac_u pz px dp s = (pz * x3 dp - px * z3 dp) * s"

definition jac_v :: "double \<Rightarrow> double \<Rightarrow> Vector3d \<Rightarrow> double \<Rightarrow> double" where
  "jac_v pz py dp s = (pz * y3 dp - py * z3 dp) * s"

definition ipz2_of :: "Node \<Rightarrow> Point \<Rightarrow> double" where
  \<comment> \<open>the local \<open>ipz2 = 1.0/(pz*pz)\<close>\<close>
  "ipz2_of nd pt = (let pz = z3 (mul34 (w2n nd) pt) in Fin 1 / (pz * pz))"

text \<open>The locals \<open>jacc\<close> and \<open>jacp\<close> of \<open>setJacobiansMono_\<close>, in this order.\<close>

definition jacMono :: "build \<Rightarrow> Node \<Rightarrow> Point \<Rightarrow> matrix \<times> matrix" where
  "jacMono cfg nd pt =
     (let pc = mul34 (w2n nd) pt;
          px = x3 pc; py = y3 pc; pz = z3 pc;
          ipz2 = Fin 1 / (pz * pz);
          ipz2fx = ipz2 * x3 (m0 (Kcam nd));
          ipz2fy = ipz2 * y3 (m1 (Kcam nd));
          ipz2fxq = qScale cfg * ipz2fx;
          ipz2fyq = qScale cfg * ipz2fy;
          pwt = start3 (sub4 pt (trans_n nd));
          dqx = mul33 (dRdx nd) pwt;
          dqy = mul33 (dRdy nd) pwt;
          dqz = mul33 (dRdz nd) pwt;
          dt0 = neg3 (col34 (w2n nd) 0);
          dt1 = neg3 (col34 (w2n nd) 1);
          dt2 = neg3 (col34 (w2n nd) 2);
          dp0 = col34 (w2n nd) 0;
          dp1 = col34 (w2n nd) 1;
          dp2 = col34 (w2n nd) 2;
          jacc =
            [[jac_u pz px dt0 ipz2fx, jac_u pz px dt1 ipz2fx, jac_u pz px dt2 ipz2fx,
              jac_u pz px dqx ipz2fxq, jac_u pz px dqy ipz2fxq, jac_u pz px dqz ipz2fxq],
             [jac_v pz py dt0 ipz2fy, jac_v pz py dt1 ipz2fy, jac_v pz py dt2 ipz2fy,
              jac_v pz py dqx ipz2fyq, jac_v pz py dqy ipz2fyq, jac_v pz py dqz ipz2fyq]];
          jacp =
            [[jac_u pz px dp0 ipz2fx, jac_u pz px dp1 ipz2fx, jac_u pz px dp2 ipz2fx],
             [jac_v pz py dp0 ipz2fy, jac_v pz py dp1 ipz2fy, jac_v pz py dp2 ipz2fy]]
      in (jacc, jacp))"

text \<open>The locals \<open>jacc\<close> and \<open>jacp\<close> of \<open>setJacobiansStereo_\<close>, in this order.\<close>

definition jacStereo :: "build \<Rightarrow> Node \<Rightarrow> Point \<Rightarrow> matrix \<times> matrix" where
  "jacStereo cfg nd pt =
     (let pc = mul34 (w2n nd) pt;
          px = x3 pc; py = y3 pc; pz = z3 pc;
          ipz2 = Fin 1 / (pz * pz);
          ipz2fx = ipz2 * x3 (m0 (Kcam nd));
          ipz2fy = ipz2 * y3 (m1 (Kcam nd));
          b = baseline nd;
          ipz2fxq = qScale cfg * ipz2fx;
          ipz2fyq = qScale cfg * ipz2fy;
          pwt = start3 (sub4 pt (trans_n nd));
          dqx = mul33 (dRdx nd) pwt;
          dqy = mul33 (dRdy nd) pwt;
          dqz = mul33 (dRdz nd) pwt;
          dt0 = neg3 (col34 (w2n nd) 0);
          dt1 = neg3 (col34 (w2n nd) 1);
          dt2 = neg3 (col34 (w2n nd) 2);
          dp0 = col34 (w2n nd) 0;
          dp1 = col34 (w2n nd) 1;
          dp2 = col34 (w2n nd) 2;
          jacc =
            [[jac_u pz px dt0 ipz2fxq, jac_u pz px dt1 ipz2fxq, jac_u pz px dt2 ipz2fxq,
              jac_u pz px dqx ipz2fxq, jac_u pz px dqy ipz2fxq, jac_u pz px dqz ipz2fxq],
             [jac_v pz py dt0 ipz2fy, jac_v pz py dt1 ipz2fy, jac_v pz py dt2 ipz2fy,
              jac_v pz py dqx ipz2fyq, jac_v pz py dqy ipz2fyq, jac_v pz py dqz ipz2fyq],
             [jac_u pz (px - b) dt0 ipz2fxq, jac_u pz (px - b) dt1 ipz2fxq,
              jac_u pz (px - b) dt2 ipz2fxq,
              jac_u pz (px - b) dqx ipz2fxq, jac_u pz (px - b) dqy ipz2fxq,
              jac_u pz (px - b) dqz ipz2fxq]];
          jacp =
            [[jac_u pz px dp0 ipz2fxq, jac_u pz px dp1 ipz2fxq, jac_u pz px dp2 ipz2fxq],
             [jac_v pz py dp0 ipz2fy, jac_v pz py dp1 ipz2fy, jac_v pz py dp2 ipz2fy],
             [jac_u pz (px - b) dp0 ipz2fxq, jac_u pz (px - b) dp1 ipz2fxq,
              jac_u pz (px - b) dp2 ipz2fxq]]
      in (jacc, jacp))"

text \<open>
  \<open>*(int *)0x0 = 0\<close>, the statement that follows each \<open>printf\<close> of a NaN check, is a
  write through the null pointer: the call does not return.
\<close>

datatype fault = NullWrite

definition setHessians :: "Proj \<Rightarrow> matrix \<Rightarrow> matrix \<Rightarrow> double list \<Rightarrow> Proj" where
  \<comment> \<open>the five assignments under ``Set Hessians + extras'', for the residual \<open>e\<close>\<close>
  "setHessians prj jacc jacp e =
     prj\<lparr>Hpp := mat_mul (transpose_m jacp) jacp,
         Hcc := mat_mul (transpose_m jacc) jacc,
         Hpc := mat_mul (transpose_m jacp) jacc,
         JcTE := mat_vec (transpose_m jacc) e,
         Bp := mat_vec (transpose_m jacp) e\<rparr>"

definition debugNaN :: "build \<Rightarrow> matrix \<Rightarrow> bool" where
  \<comment> \<open>under \<open>DEBUG\<close>: some \<open>jacc(i,j)\<close> with \<open>i < 2\<close> is NaN\<close>
  "debugNaN cfg jacc = (DEBUG cfg \<and> list_ex isnan (concat (take 2 jacc)))"

definition setJacobiansMono :: "build \<Rightarrow> Proj \<Rightarrow> Node \<Rightarrow> Point \<Rightarrow> fault + Proj" where
  "setJacobiansMono cfg prj nd pt =
     (if isnan (ipz2_of nd pt) then Inl NullWrite
      else (let jacc = fst (jacMono cfg nd pt); jacp = snd (jacMono cfg nd pt)
            in if debugNaN cfg jacc then Inl NullWrite
               else Inr (setHessians prj jacc jacp (start2 (err prj)))))"

definition setJacobiansStereo :: "build \<Rightarrow> Proj \<Rightarrow> Node \<Rightarrow> Point \<Rightarrow> fault + Proj" where
  "setJacobiansStereo cfg prj nd pt =
     (if isnan (ipz2_of nd pt) then Inl NullWrite
      else (let jacc = fst (jacStereo cfg nd pt); jacp = snd (jacStereo cfg nd pt)
            in if debugNaN cfg jacc then Inl NullWrite
               else Inr (setHessians prj jacc jacp (coeffs3 (err prj)))))"

definition setJacobians :: "build \<Rightarrow> Proj \<Rightarrow> Node \<Rightarrow> Point \<Rightarrow> fault + Proj" where
  "setJacobians cfg prj nd pt =
     (if stereo prj then setJacobiansStereo cfg prj nd pt
      else setJacobiansMono cfg prj nd pt)"

section \<open>The graph facade (sba_node)\<close>

subsection \<open>The graph\<close>

record Track =
  point :: Point
  projections :: "Proj list"

record SysSBA =
  nodes :: "Node list"
  tracks :: "Track list"

text \<open>\<open>Track(Point p)\<close> of \<open>proj.cpp\<close>: the point, and no projection yet.\<close>

definition Track1 :: "Point \<Rightarrow> Track" where
  "Track1 p = \<lparr>point = p, projections = []\<rparr>"

text \<open>
  \<open>SysSBA::addNode\<close>, \<open>SysSBA::addPoint\<close> and \<open>SysSBA::addProj\<close> are defined in
  \<open>sba.cpp\<close>, which is not among the sources; the three definitions below follow the
  specification of the graph facade.
\<close>

text \<open>
  Modelled from the spec: \<open>SysSBA::addNode\<close> (in \<open>sba.cpp\<close>) is missing. By the
  specification it appends a new node and returns a dense internal index. The node is
  given already constructed.
\<close>

definition sba_addNode :: "Node \<Rightarrow> SysSBA \<Rightarrow> nat \<times> SysSBA" where
  "sba_addNode nd s = (length (nodes s), s\<lparr>nodes := nodes s @ [nd]\<rparr>)"

text \<open>
  Modelled from the spec: \<open>SysSBA::addPoint\<close> (in \<open>sba.cpp\<close>) is missing. By the
  specification it appends a new track wrapping a new point and returns its internal
  index.
\<close>

definition sba_addPoint :: "Point \<Rightarrow> SysSBA \<Rightarrow> nat \<times> SysSBA" where
  "sba_addPoint p s = (length (tracks s), s\<lparr>tracks := tracks s @ [Track1 p]\<rparr>)"

text \<open>
  Modelled from the spec: \<open>SysSBA::addProj\<close> (in \<open>sba.cpp\<close>) is missing. By the
  specification it validates that both indices are within the current bounds; on
  success it attaches a new projection to the track at the point index, referencing the
  node at the camera index; on failure it drops the observation without changing the
  graph. The storage \<open>u\<close> is the one the new projection is constructed in.
\<close>

definition sba_addProj :: "Proj \<Rightarrow> int \<Rightarrow> int \<Rightarrow> Vector3d \<Rightarrow> bool \<Rightarrow> SysSBA \<Rightarrow> SysSBA" where
  "sba_addProj u ci pti q st s =
     (if 0 \<le> ci \<and> ci < int (length (nodes s)) \<and> 0 \<le> pti \<and> pti < int (length (tracks s))
      then (let t = tracks s ! nat pti
            in s\<lparr>tracks := (tracks s)[nat pti := t\<lparr>projections := projections t @ [Proj3 u ci q st]\<rparr>]\<rparr>)
      else s)"

subsection \<open>Messages\<close>

text \<open>
  The messages \<open>sba::CameraNode\<close>, \<open>sba::WorldPoint\<close> and \<open>sba::Projection\<close>; their
  fields carry a prefix here (\<open>cn_\<close>, \<open>wp_\<close>, \<open>pr_\<close>), except \<open>camindex\<close> and
  \<open>pointindex\<close>. External indices are \<open>unsigned int\<close>. \<open>Eigen::Quaternion\<close> takes its
  coefficients in the order \<open>w, x, y, z\<close>.
\<close>

datatype Quaternion = Quaternion (qw: double) (qx: double) (qy: double) (qz: double)

record CamParams =
  fx :: double
  fy :: double
  cx :: double
  cy :: double
  tx :: double

record CameraNode =
  cn_index :: nat
  cn_translation :: Vector3d
  cn_rotation :: Vector4d
  cn_fx :: double
  cn_fy :: double
  cn_cx :: double
  cn_cy :: double
  cn_baseline :: double
  cn_fixed :: bool

record WorldPoint =
  wp_index :: nat
  wp_x :: double
  wp_y :: double
  wp_z :: double
  wp_w :: double

record Projection =
  camindex :: nat
  pointindex :: nat
  pr_u :: double
  pr_v :: double
  pr_d :: double
  pr_stereo :: bool

subsection \<open>The node\<close>

text \<open>What \<open>ROS_INFO\<close> writes in \<open>addProj\<close>: the two internal indices and the two sizes.\<close>

datatype ros_info = FailedToAddProjection int int int int

record SBANode =
  sba :: SysSBA
  point_indices :: "nat \<rightharpoonup> nat"
  node_indices :: "nat \<rightharpoonup> nat"
  rosout :: "ros_info list"

definition SBANode0 :: SBANode where
  \<comment> \<open>a freshly constructed node: an empty graph and empty maps\<close>
  "SBANode0 = \<lparr>sba = \<lparr>nodes = [], tracks = []\<rparr>, point_indices = Map.empty,
                node_indices = Map.empty, rosout = []\<rparr>"

text \<open>
  \<open>std::map::operator[]\<close>: the value stored under the key; a key that is absent is
  first inserted with a value-initialised (zero) value.
\<close>

definition map_index :: "(nat \<rightharpoonup> nat) \<Rightarrow> nat \<Rightarrow> nat \<times> (nat \<rightharpoonup> nat)" where
  "map_index m k = (case m k of Some v \<Rightarrow> (v, m) | None \<Rightarrow> (0, m(k \<mapsto> 0)))"

text \<open>
  The construction of a \<open>Node\<close> from pose, intrinsics and the fixed flag happens inside
  \<open>SysSBA::addNode\<close>; it is the parameter \<open>mk\<close>.
\<close>

definition addNode ::
  "(Vector4d \<Rightarrow> Quaternion \<Rightarrow> CamParams \<Rightarrow> bool \<Rightarrow> Node) \<Rightarrow> CameraNode \<Rightarrow> SBANode \<Rightarrow> SBANode" where
  "addNode mk msg st =
     (let trans = Vector4d (x3 (cn_translation msg)) (y3 (cn_translation msg))
                    (z3 (cn_translation msg)) (Fin 1);
          qrot = Quaternion (x4 (cn_rotation msg)) (y4 (cn_rotation msg))
                   (z4 (cn_rotation msg)) (w4 (cn_rotation msg));
          cam_params = \<lparr>fx = cn_fx msg, fy = cn_fy msg, cx = cn_cx msg, cy = cn_cy msg,
                         tx = cn_baseline msg\<rparr>;
          fixed = cn_fixed msg;
          r = sba_addNode (mk trans qrot cam_params fixed) (sba st)
      in st\<lparr>sba := snd r, node_indices := (node_indices st)(cn_index msg \<mapsto> fst r)\<rparr>)"

definition addPoint :: "WorldPoint \<Rightarrow> SBANode \<Rightarrow> SBANode" where
  "addPoint msg st =
     (let r = sba_addPoint (Vector4d (wp_x msg) (wp_y msg) (wp_z msg) (wp_w msg)) (sba st)
      in st\<lparr>sba := snd r, point_indices := (point_indices st)(wp_index msg \<mapsto> fst r)\<rparr>)"

text \<open>
  \<open>addProj\<close> reads both maps with \<open>operator[]\<close> and converts the results to \<open>int\<close>;
  internal indices are far below \<open>2^31\<close>, so the conversion keeps the value.
\<close>

definition addProj :: "Proj \<Rightarrow> Projection \<Rightarrow> SBANode \<Rightarrow> SBANode" where
  "addProj u msg st =
     (let cl = map_index (node_indices st) (camindex msg);
          pl = map_index (point_indices st) (pointindex msg);
          ci = int (fst cl);
          pti = int (fst pl);
          keypoint = Vector3d (pr_u msg) (pr_v msg) (pr_d msg);
          st1 = st\<lparr>node_indices := snd cl, point_indices := snd pl\<rparr>;
          nt = int (length (tracks (sba st)));
          nn = int (length (nodes (sba st)))
      in if pti < nt \<and> ci < nn
         then st1\<lparr>sba := sba_addProj u ci pti keypoint (pr_stereo msg) (sba st)\<rparr>
         else st1\<lparr>rosout := rosout st @ [FailedToAddProjection ci pti nn nt]\<rparr>)"

definition addFrame ::
  "(Vector4d \<Rightarrow> Quaternion \<Rightarrow> CamParams \<Rightarrow> bool \<Rightarrow> Node) \<Rightarrow> Proj \<Rightarrow>
   CameraNode list \<Rightarrow> WorldPoint list \<Rightarrow> Projection list \<Rightarrow> SBANode \<Rightarrow> SBANode" where
  "addFrame mk u ns ps prs st =
     foldl (\<lambda>s m. addProj u m s) (foldl (\<lambda>s m. addPoint m s) (foldl (\<lambda>s m. addNode mk m s) st ns) ps) prs"

section \<open>Publishing a frame (frame_disparity)\<close>

text \<open>
  \<open>cv::KeyPoint\<close> and the keypoint of the published frame message; the fields of the
  latter carry the prefix \<open>k_\<close>. A \<open>cv::Mat\<close> of \<open>float\<close> is its size and its pixels;
  \<open>at<float>(i, j)\<close> is defined inside the image only. The conversion of a \<open>float\<close>
  to the \<open>int\<close> argument of \<open>at\<close> truncates towards zero and is defined for finite
  values in the range of \<open>int\<close>.
\<close>

record cvKeyPoint =
  pt_x :: double
  pt_y :: double
  size_kp :: double
  angle :: double
  response :: double
  octave :: int
  class_id :: int

record KeyPointMsg =
  k_x :: double
  k_y :: double
  k_d :: double
  k_size :: double
  k_angle :: double
  k_response :: double
  k_octave :: int
  k_class_id :: int
  descriptor :: "double list"
  goodPt :: bool

record Mat =
  rows :: int
  cols :: int
  pixel :: "int \<Rightarrow> int \<Rightarrow> double"

record 'h CameraInfo =
  ci_header :: 'h

record 'h Frame =
  header :: 'h
  l_info :: "'h CameraInfo"
  r_info :: "'h CameraInfo"
  keypoints :: "KeyPointMsg list"

definition at_float :: "Mat \<Rightarrow> int \<Rightarrow> int \<Rightarrow> double option" where
  "at_float m i j =
     (if 0 \<le> i \<and> i < rows m \<and> 0 \<le> j \<and> j < cols m then Some (pixel m i j) else None)"

fun to_int :: "double \<Rightarrow> int option" where
  "to_int (Fin r) =
     (let t = (if 0 \<le> r then \<lfloor>r\<rfloor> else \<lceil>r\<rceil>)
      in if - (2 ^ 31) \<le> t \<and> t < 2 ^ 31 then Some t else None)"
| "to_int _ = None"

definition lookup_disp :: "Mat \<Rightarrow> cvKeyPoint \<Rightarrow> double option" where
  \<comment> \<open>\<open>disp_image.at<float>(kpts[i].pt.y, kpts[i].pt.y)\<close>\<close>
  "lookup_disp disp_image k =
     (case to_int (pt_y k) of None \<Rightarrow> None
      | Some i \<Rightarrow> (case to_int (pt_y k) of None \<Rightarrow> None
                   | Some j \<Rightarrow> at_float disp_image i j))"

text \<open>The body of the loop over the keypoints, for the index \<open>i\<close>; row \<open>i\<close> of the
  descriptor matrix must exist.\<close>

definition keypointMsg :: "Mat \<Rightarrow> cvKeyPoint list \<Rightarrow> double list list \<Rightarrow> nat \<Rightarrow> KeyPointMsg option" where
  "keypointMsg disp_image kpts dtors i =
     (case lookup_disp disp_image (kpts ! i) of None \<Rightarrow> None
      | Some disp \<Rightarrow>
          if i < length dtors
          then (let k = \<lparr>k_x = pt_x (kpts ! i), k_y = pt_y (kpts ! i), k_d = disp,
                         k_size = size_kp (kpts ! i), k_angle = angle (kpts ! i),
                         k_response = response (kpts ! i), k_octave = octave (kpts ! i),
                         k_class_id = class_id (kpts ! i), descriptor = dtors ! i,
                         goodPt = False\<rparr>
                in Some (if Fin 0 < disp then k\<lparr>goodPt := True\<rparr>
                         else k\<lparr>k_d := Fin 10, goodPt := False\<rparr>))
          else None)"

text \<open>
  \<open>publishFrame\<close> returns the message it publishes. The keypoints \<open>kpts\<close> and the
  descriptor matrix \<open>dtors\<close> are what the detector and the extractor return for the
  left image.
\<close>

definition publishFrame ::
  "'h CameraInfo \<Rightarrow> 'h CameraInfo \<Rightarrow> Mat \<Rightarrow> cvKeyPoint list \<Rightarrow> double list list \<Rightarrow> 'h Frame option" where
  "publishFrame l_info_msg r_info_msg disp_image kpts dtors =
     (let nkpts = length kpts
      in case those (map (keypointMsg disp_image kpts dtors) [0..<nkpts]) of
           None \<Rightarrow> None
         | Some ks \<Rightarrow> Some \<lparr>header = ci_header l_info_msg, l_info = l_info_msg,
                             r_info = r_info_msg, keypoints = ks\<rparr>)"

section \<open>Example inputs\<close>

text \<open>
  A camera at the origin of the world frame, looking along the z axis, with focal
  lengths 2 and 3, principal point 0 and baseline 1/2; a projection with keypoint
  \<open>(1, 1, 1)\<close> and stored residual \<open>(1, 2, 3)\<close>; a build with \<open>qScale = 2\<close> and
  without \<open>DEBUG\<close>.
\<close>

definition vec3 :: "real \<Rightarrow> real \<Rightarrow> real \<Rightarrow> Vector3d" where
  "vec3 a b c = Vector3d (Fin a) (Fin b) (Fin c)"

definition vec4 :: "real \<Rightarrow> real \<Rightarrow> real \<Rightarrow> real \<Rightarrow> Vector4d" where
  "vec4 a b c d = Vector4d (Fin a) (Fin b) (Fin c) (Fin d)"

definition node_ex :: Node where
  "node_ex =
     \<lparr>trans_n = vec4 0 0 0 1,
      w2n = Matrix34d (vec4 1 0 0 0) (vec4 0 1 0 0) (vec4 0 0 1 0),
      w2i = Matrix34d (vec4 2 0 0 0) (vec4 0 3 0 0) (vec4 0 0 1 0),
      Kcam = Matrix3d (vec3 2 0 0) (vec3 0 3 0) (vec3 0 0 1),
      baseline = Fin (1 / 2),
      dRdx = Matrix3d (vec3 0 0 0) (vec3 0 0 2) (vec3 0 (- 2) 0),
      dRdy = Matrix3d (vec3 0 0 (- 2)) (vec3 0 0 0) (vec3 2 0 0),
      dRdz = Matrix3d (vec3 0 2 0) (vec3 (- 2) 0 0) (vec3 0 0 0)\<rparr>"

definition proj_ex :: Proj where
  "proj_ex =
     \<lparr>ndi = 0, kp = vec3 1 1 1, stereo = False, isValid = True, err = vec3 1 2 3,
      Hpp = [], Hcc = [], Hpc = [], JcTE = [], Bp = []\<rparr>"

definition build_ex :: build where
  "build_ex = \<lparr>qScale = Fin 2, DEBUG = False, monoErr2 = (\<lambda>e p. z3 p / z3 p)\<rparr>"


text \<open>
  A camera rotated so that no coefficient of the third row of \<open>w2n\<close> is zero, with
  derivative matrices whose third rows do not vanish on the point \<open>(1, 4, 1)\<close>; that
  point has camera coordinates \<open>(3, 3, 0)\<close>.
\<close>

definition node_rot :: Node where
  "node_rot =
     \<lparr>trans_n = vec4 0 0 0 1,
      w2n = Matrix34d (vec4 (2 / 3) (2 / 3) (- 1 / 3) 0) (vec4 (- 1 / 3) (2 / 3) (2 / 3) 0)
              (vec4 (2 / 3) (- 1 / 3) (2 / 3) 0),
      w2i = Matrix34d (vec4 (4 / 3) (4 / 3) (- 2 / 3) 0) (vec4 (- 1) 2 2 0)
              (vec4 (2 / 3) (- 1 / 3) (2 / 3) 0),
      Kcam = Matrix3d (vec3 2 0 0) (vec3 0 3 0) (vec3 0 0 1),
      baseline = Fin (1 / 2),
      dRdx = Matrix3d (vec3 0 1 (- 1)) (vec3 (- 1) 0 2) (vec3 1 (- 2) 0),
      dRdy = Matrix3d (vec3 0 1 (- 2)) (vec3 (- 1) 0 1) (vec3 2 (- 1) 0),
      dRdz = Matrix3d (vec3 0 2 (- 1)) (vec3 (- 2) 0 1) (vec3 1 1 0)\<rparr>"

text \<open>
  A graph with one camera, of external index 5, and one point, of external index 7,
  built by the facade from the empty one; and an observation of that point whose
  camera index, 99, was never added.
\<close>

definition cam_ex :: CameraNode where
  "cam_ex =
     \<lparr>cn_index = 5, cn_translation = vec3 0 0 0, cn_rotation = vec4 0 0 0 1,
      cn_fx = Fin 2, cn_fy = Fin 3, cn_cx = Fin 0, cn_cy = Fin 0, cn_baseline = Fin (1 / 2),
      cn_fixed = True\<rparr>"

definition point_ex :: WorldPoint where
  "point_ex = \<lparr>wp_index = 7, wp_x = Fin 1, wp_y = Fin 1, wp_z = Fin 2, wp_w = Fin 1\<rparr>"

definition obs_ex :: Projection where
  "obs_ex =
     \<lparr>camindex = 99, pointindex = 7, pr_u = Fin 1, pr_v = Fin 1, pr_d = Fin 1,
      pr_stereo = True\<rparr>"

definition graph_ex :: SBANode where
  "graph_ex = addPoint point_ex (addNode (\<lambda>t q c f. node_ex) cam_ex SBANode0)"

text \<open>
  A disparity image of 4 rows and 6 columns with the value 5 at row 2, column 2, the
  value 7 at row 2, column 3, the value \<open>-1\<close> at row 1, column 1, and 9 elsewhere; two
  keypoints, at \<open>(x, y) = (3, 2.5)\<close> and at \<open>(4, 1)\<close>, with their descriptors; and the
  frame published for them.
\<close>

definition image_ex :: Mat where
  "image_ex =
     \<lparr>rows = 4, cols = 6,
      pixel = (\<lambda>i j. if i = 2 \<and> j = 2 then Fin 5 else if i = 2 \<and> j = 3 then Fin 7
                     else if i = 1 \<and> j = 1 then Fin (- 1) else Fin 9)\<rparr>"

definition kpts_ex :: "cvKeyPoint list" where
  "kpts_ex =
     [\<lparr>pt_x = Fin 3, pt_y = Fin (5 / 2), size_kp = Fin 1, angle = Fin 0, response = Fin 1,
       octave = 0, class_id = - 1\<rparr>,
      \<lparr>pt_x = Fin 4, pt_y = Fin 1, size_kp = Fin 1, angle = Fin 0, response = Fin 1,
       octave = 0, class_id = - 1\<rparr>]"

definition dtors_ex :: "double list list" where
  "dtors_ex = [[Fin 1, Fin 2], [Fin 3, Fin 4]]"

definition frame_ex :: "unit Frame" where
  "frame_ex =
     \<lparr>header = (), l_info = \<lparr>ci_header = ()\<rparr>, r_info = \<lparr>ci_header = ()\<rparr>,
      keypoints =
        [\<lparr>k_x = Fin 3, k_y = Fin (5 / 2), k_d = Fin 5, k_size = Fin 1, k_angle = Fin 0,
          k_response = Fin 1, k_octave = 0, k_class_id = - 1,
          descriptor = [Fin 1, Fin 2], goodPt = True\<rparr>,
         \<lparr>k_x = Fin 4, k_y = Fin 1, k_d = Fin 10, k_size = Fin 1, k_angle = Fin 0,
          k_response = Fin 1, k_octave = 0, k_class_id = - 1,
          descriptor = [Fin 3, Fin 4], goodPt = False\<rparr>]\<rparr>"

section \<open>Properties of the arithmetic\<close>

lemmas ex_defs = node_ex_def proj_ex_def build_ex_def vec3_def vec4_def

lemmas geo_defs = mul34_def mul33_def dot3_def dot4_def sub3_def sub4_def neg3_def
  start3_def start2_def coeffs3_def col34_def minus_double_def

lemmas mat_defs = mat_mul_def mat_vec_def transpose_m_def column_def ncols_def dot_def

lemma double_neg_neg [simp]: "- (- a) = (a :: double)"
  by (cases a) simp_all

lemma double_mult_neg_right: "a * (- b) = - (a * b)" for a b :: double
  by (cases a; cases b) simp_all

lemma double_mult_neg_left: "(- a) * b = - (a * b)" for a b :: double
  by (cases a; cases b) simp_all

lemma double_neg_add: "- (a + b) = (- a) + (- b)" for a b :: double
  by (cases a; cases b) simp_all


lemma double_zero_add: "Fin 0 + a = a"
  by (cases a) simp_all

lemma double_pos_not_le: "Fin 0 < a \<Longrightarrow> \<not> a \<le> Fin 0"
  by (cases a) simp_all

text \<open>Dividing by a value and multiplying by its inverse, the two ways in which
  \<open>calcErrMono_\<close> and \<open>calcErrStereo_\<close> normalise by the depth, give the same result
  in this arithmetic.\<close>

lemma double_mult_inverse: "a * (Fin 1 / z) = a / z" for a z :: double
  by (cases a; cases z) (simp_all add: field_simps)

text \<open>The generic product and transposition on the shapes of the point Jacobians.\<close>

lemma dot_2: "dot [a, b] [c, d] = a * c + b * d"
  by (simp add: dot_def double_zero_add)

lemma dot_3: "dot [a, b, c] [d, e, f] = a * d + b * e + c * f"
  by (simp add: dot_def double_zero_add)

lemma transpose_2x3: "transpose_m [[a, b, c], [d, e, f]] = [[a, d], [b, e], [c, f]]"
  by (simp add: transpose_m_def column_def ncols_def upt_rec)

lemma transpose_3x3:
  "transpose_m [[a, b, c], [d, e, f], [g, h, i]] = [[a, d, g], [b, e, h], [c, f, i]]"
  by (simp add: transpose_m_def column_def ncols_def upt_rec)

lemma mat_mul_JtJ_2x3:
  "mat_mul (transpose_m [[a, b, c], [d, e, f]]) [[a, b, c], [d, e, f]] =
     [[a * a + d * d, a * b + d * e, a * c + d * f],
      [b * a + e * d, b * b + e * e, b * c + e * f],
      [c * a + f * d, c * b + f * e, c * c + f * f]]"
  by (simp add: transpose_2x3 mat_mul_def column_def ncols_def upt_rec dot_2)

section \<open>Residuals\<close>

text \<open>
  Claim C3. When the projected depth, the third coefficient of \<open>w2i * pt\<close>, is at most
  zero, \<open>calcErr\<close> stores the residual \<open>(0, 0, 0)\<close> and returns the cost \<open>0\<close>, whatever
  the keypoint, in the mono and in the stereo model.
\<close>

theorem calcErr_nonpositive_depth:
  assumes "z3 (mul34 (w2i nd) pt) \<le> Fin 0"
  shows "calcErr cfg prj nd pt = (Fin 0, prj\<lparr>err := Vector3d (Fin 0) (Fin 0) (Fin 0)\<rparr>)"
  using assms by (simp add: calcErr_def calcErrMono_def calcErrStereo_def Let_def)

theorem calcErr_nonpositive_depth_witness:
  "z3 (mul34 (w2i node_ex) (vec4 1 1 (- 2) 1)) \<le> Fin 0 \<and>
   calcErr build_ex proj_ex node_ex (vec4 1 1 (- 2) 1) =
     (Fin 0, proj_ex\<lparr>err := Vector3d (Fin 0) (Fin 0) (Fin 0)\<rparr>) \<and>
   calcErr build_ex (proj_ex\<lparr>stereo := True\<rparr>) node_ex (vec4 1 1 (- 2) 1) =
     (Fin 0, proj_ex\<lparr>stereo := True, err := Vector3d (Fin 0) (Fin 0) (Fin 0)\<rparr>)"
proof -
  have h: "z3 (mul34 (w2i node_ex) (vec4 1 1 (- 2) 1)) \<le> Fin 0"
    by (simp add: ex_defs geo_defs)
  show ?thesis
    using h calcErr_nonpositive_depth [OF h, of build_ex proj_ex]
      calcErr_nonpositive_depth [OF h, of build_ex "proj_ex\<lparr>stereo := True\<rparr>"]
    by simp
qed


text \<open>
  Claim C6. For a stereo projection at positive depth, the first two coefficients of
  the residual are the left-image pixel coordinates, obtained from \<open>w2i * pt\<close> by
  multiplying with the inverse of its third coefficient, and the third is the
  right-image horizontal coordinate, obtained by applying \<open>Kcam\<close> to the point in camera
  coordinates minus \<open>(baseline, 0, 0)\<close>; the keypoint is subtracted from all three.
\<close>

theorem calcErr_stereo_residual:
  assumes "stereo prj" and "Fin 0 < z3 (mul34 (w2i nd) pt)"
  shows "err (snd (calcErr cfg prj nd pt)) =
    (let p1 = mul34 (w2i nd) pt;
         pr = mul33 (Kcam nd)
                (sub3 (mul34 (w2n nd) pt) (Vector3d (baseline nd) (Fin 0) (Fin 0)))
     in Vector3d (x3 p1 * (Fin 1 / z3 p1) - x3 (kp prj))
                 (y3 p1 * (Fin 1 / z3 p1) - y3 (kp prj))
                 (x3 pr / z3 pr - z3 (kp prj)))"
  using assms double_pos_not_le [OF assms(2)]
  by (simp add: calcErr_def calcErrStereo_def Let_def sub3_def)

theorem calcErr_stereo_residual_witness:
  "stereo (proj_ex\<lparr>stereo := True\<rparr>) \<and>
   Fin 0 < z3 (mul34 (w2i node_ex) (vec4 1 1 2 1)) \<and>
   err (snd (calcErr build_ex (proj_ex\<lparr>stereo := True\<rparr>) node_ex (vec4 1 1 2 1))) =
     vec3 0 (1 / 2) (- 1 / 2)"
proof -
  have s: "stereo (proj_ex\<lparr>stereo := True\<rparr>)"
    by simp
  have d: "Fin 0 < z3 (mul34 (w2i node_ex) (vec4 1 1 2 1))"
    by (simp add: ex_defs geo_defs)
  show ?thesis
    using s d calcErr_stereo_residual [OF s d, of build_ex]
    by (simp add: Let_def ex_defs geo_defs)
qed

section \<open>Jacobians and cached blocks\<close>

lemma jac_u_neg3: "jac_u pz px (neg3 d) s = - jac_u pz px d s"
  by (simp add: jac_u_def neg3_def minus_double_def double_mult_neg_right
      double_mult_neg_left [symmetric] double_neg_add)

lemma jac_v_neg3: "jac_v pz py (neg3 d) s = - jac_v pz py d s"
  by (simp add: jac_v_def neg3_def minus_double_def double_mult_neg_right
      double_mult_neg_left [symmetric] double_neg_add)

text \<open>
  Claim C9. In both models the point Jacobian is the negated translation block, the
  columns 0 to 2, of the camera Jacobian.
\<close>

theorem jacp_is_negated_translation_block:
  "snd (jacMono cfg nd pt) = map (\<lambda>r. map uminus (take 3 r)) (fst (jacMono cfg nd pt)) \<and>
   snd (jacStereo cfg nd pt) = map (\<lambda>r. map uminus (take 3 r)) (fst (jacStereo cfg nd pt))"
  by (simp add: jacMono_def jacStereo_def Let_def jac_u_neg3 jac_v_neg3)

text \<open>
  Claim C5. A call of \<open>setJacobians\<close> returns unless \<open>ipz2\<close> is NaN or the check under
  \<open>DEBUG\<close> finds a NaN. When it returns, the cached blocks are the products of the
  Jacobians it has just computed: \<open>Hpp = jacp\<^sup>T jacp\<close>, \<open>Hcc = jacc\<^sup>T jacc\<close>,
  \<open>Hpc = jacp\<^sup>T jacc\<close>, \<open>JcTE = jacc\<^sup>T e\<close> and \<open>Bp = jacp\<^sup>T e\<close>, where \<open>e\<close> is the
  stored residual, its first two coefficients in the mono model and all three in the
  stereo model.
\<close>

theorem setJacobians_blocks:
  "((\<exists>p. setJacobians cfg prj nd pt = Inr p) \<longleftrightarrow>
      \<not> isnan (ipz2_of nd pt) \<and>
      \<not> debugNaN cfg (fst (if stereo prj then jacStereo cfg nd pt else jacMono cfg nd pt))) \<and>
   (\<forall>p. setJacobians cfg prj nd pt = Inr p \<longrightarrow>
      (let jacc = fst (if stereo prj then jacStereo cfg nd pt else jacMono cfg nd pt);
           jacp = snd (if stereo prj then jacStereo cfg nd pt else jacMono cfg nd pt);
           e = (if stereo prj then coeffs3 (err prj) else start2 (err prj))
       in Hpp p = mat_mul (transpose_m jacp) jacp \<and>
          Hcc p = mat_mul (transpose_m jacc) jacc \<and>
          Hpc p = mat_mul (transpose_m jacp) jacc \<and>
          JcTE p = mat_vec (transpose_m jacc) e \<and>
          Bp p = mat_vec (transpose_m jacp) e))"
  by (auto simp add: setJacobians_def setJacobiansMono_def setJacobiansStereo_def Let_def
      setHessians_def)

theorem setJacobians_blocks_witness:
  "\<exists>p. setJacobians build_ex proj_ex node_ex (vec4 1 1 2 1) = Inr p \<and>
     Hpp p = [[Fin 1, Fin 0, Fin (- (1 / 2))],
              [Fin 0, Fin (9 / 4), Fin (- (9 / 8))],
              [Fin (- (1 / 2)), Fin (- (9 / 8)), Fin (13 / 16)]] \<and>
     JcTE p = [Fin (- 1), Fin (- 3), Fin 2, Fin 32, Fin (- 16), Fin (- 8)] \<and>
     Bp p = [Fin 1, Fin 3, Fin (- 2)]"
proof -
  note blocks = setJacobians_blocks [of build_ex proj_ex node_ex "vec4 1 1 2 1"]
  have "\<not> isnan (ipz2_of node_ex (vec4 1 1 2 1))"
    by (simp add: ipz2_of_def Let_def ex_defs geo_defs)
  moreover have "\<not> debugNaN build_ex (fst (if stereo proj_ex
      then jacStereo build_ex node_ex (vec4 1 1 2 1)
      else jacMono build_ex node_ex (vec4 1 1 2 1)))"
    by (simp add: debugNaN_def build_ex_def)
  ultimately obtain p where p: "setJacobians build_ex proj_ex node_ex (vec4 1 1 2 1) = Inr p"
    using blocks by blast
  with blocks have
    "Hpp p = mat_mul (transpose_m (snd (jacMono build_ex node_ex (vec4 1 1 2 1))))
               (snd (jacMono build_ex node_ex (vec4 1 1 2 1))) \<and>
     JcTE p = mat_vec (transpose_m (fst (jacMono build_ex node_ex (vec4 1 1 2 1))))
               (start2 (err proj_ex)) \<and>
     Bp p = mat_vec (transpose_m (snd (jacMono build_ex node_ex (vec4 1 1 2 1))))
               (start2 (err proj_ex))"
    by (simp add: Let_def proj_ex_def)
  then have
    "Hpp p = [[Fin 1, Fin 0, Fin (- (1 / 2))],
              [Fin 0, Fin (9 / 4), Fin (- (9 / 8))],
              [Fin (- (1 / 2)), Fin (- (9 / 8)), Fin (13 / 16)]] \<and>
     JcTE p = [Fin (- 1), Fin (- 3), Fin 2, Fin 32, Fin (- 16), Fin (- 8)] \<and>
     Bp p = [Fin 1, Fin 3, Fin (- 2)]"
    by (simp add: jacMono_def Let_def jac_u_def jac_v_def ex_defs geo_defs mat_defs)
  with p show ?thesis by blast
qed

text \<open>When no check fires, in particular at every finite non-zero depth in a build
  without \<open>DEBUG\<close>, the call returns.\<close>

lemma setJacobians_returns:
  assumes "\<not> DEBUG cfg" and "z3 (mul34 (w2n nd) pt) = Fin z"
  shows "\<exists>p. setJacobians cfg prj nd pt = Inr p"
  using assms
  by (simp add: setJacobians_def setJacobiansMono_def setJacobiansStereo_def Let_def
      ipz2_of_def debugNaN_def)



text \<open>Whatever the value of \<open>qScale\<close>, the two models agree on the second row and on
  the quaternion columns of the first row.\<close>

lemma stereo_mono_second_row:
  "fst (jacStereo cfg nd pt) ! 1 = fst (jacMono cfg nd pt) ! 1 \<and>
   snd (jacStereo cfg nd pt) ! 1 = snd (jacMono cfg nd pt) ! 1 \<and>
   drop 3 (fst (jacStereo cfg nd pt) ! 0) = drop 3 (fst (jacMono cfg nd pt) ! 0)"
  by (simp add: jacMono_def jacStereo_def Let_def)

text \<open>
  The translation and point terms of the first row are where the value of \<open>qScale\<close>
  shows: \<open>setJacobiansStereo_\<close> scales them with \<open>ipz2fxq\<close>, where
  \<open>setJacobiansMono_\<close> has \<open>ipz2fx\<close>. In a build with \<open>qScale = 2\<close>, at the example
  camera and the point \<open>(1, 1, 2)\<close>, the entry \<open>(0, 0)\<close> of the camera Jacobian is \<open>-1\<close>
  in the mono model and \<open>-2\<close> in the stereo model.
\<close>

lemma stereo_first_row_at_qScale_2:
  "fst (jacMono build_ex node_ex (vec4 1 1 2 1)) ! 0 ! 0 = Fin (- 1) \<and>
   fst (jacStereo build_ex node_ex (vec4 1 1 2 1)) ! 0 ! 0 = Fin (- 2) \<and>
   snd (jacMono build_ex node_ex (vec4 1 1 2 1)) ! 0 ! 0 = Fin 1 \<and>
   snd (jacStereo build_ex node_ex (vec4 1 1 2 1)) ! 0 ! 0 = Fin 2"
  by (simp add: jacMono_def jacStereo_def Let_def jac_u_def jac_v_def ex_defs geo_defs)

text \<open>
  Claim C4 says that \<open>setJacobians\<close> detects a non-finite intermediate value, the
  infinite \<open>ipz2\<close> of a point at camera depth zero in particular, and writes no
  non-finite value into the cached blocks. For the example camera and the point
  \<open>(1, 1, 0)\<close>, at depth zero, \<open>ipz2\<close> is \<open>+\<infinity>\<close>, which \<open>isnan\<close> does not report; the call
  returns, in the mono and in the stereo model, and the blocks hold NaN and infinities.
\<close>

theorem setJacobians_zero_depth_writes_nonfinite:
  "z3 (mul34 (w2n node_ex) (vec4 1 1 0 1)) = Fin 0 \<and>
   ipz2_of node_ex (vec4 1 1 0 1) = PInf \<and>
   (\<exists>p. setJacobians build_ex proj_ex node_ex (vec4 1 1 0 1) = Inr p \<and>
      Hpp p = [[NaN, NaN, NaN], [NaN, NaN, NaN], [NaN, NaN, PInf]] \<and>
      JcTE p = [NaN, NaN, PInf, PInf, NInf, NaN] \<and>
      Bp p = [NaN, NaN, NInf]) \<and>
   (\<exists>p. setJacobians build_ex (proj_ex\<lparr>stereo := True\<rparr>) node_ex (vec4 1 1 0 1) = Inr p \<and>
      Hpp p = [[NaN, NaN, NaN], [NaN, NaN, NaN], [NaN, NaN, PInf]] \<and>
      JcTE p = [NaN, NaN, PInf, PInf, NInf, NaN] \<and>
      Bp p = [NaN, NaN, NInf])"
  by (simp add: setJacobians_def setJacobiansMono_def setJacobiansStereo_def ipz2_of_def
      debugNaN_def setHessians_def jacMono_def jacStereo_def Let_def jac_u_def jac_v_def
      ex_defs geo_defs mat_defs)

text \<open>The check under \<open>DEBUG\<close> looks for NaN only, and only in the first two rows of
  \<open>jacc\<close>: for the rotated camera and the point \<open>(1, 4, 1)\<close>, at depth zero, every entry
  of the Jacobians is infinite, the check passes, and the blocks are infinite.\<close>

lemma setJacobians_zero_depth_debug:
  "z3 (mul34 (w2n node_rot) (vec4 1 4 1 1)) = Fin 0 \<and>
   (\<exists>p. setJacobians (build_ex\<lparr>DEBUG := True\<rparr>) proj_ex node_rot (vec4 1 4 1 1) = Inr p \<and>
      Hpp p = [[PInf, NInf, PInf], [NInf, PInf, NInf], [PInf, NInf, PInf]] \<and>
      JcTE p = [PInf, NInf, PInf, PInf, PInf, NInf] \<and>
      Bp p = [NInf, PInf, NInf])"
  by (simp add: setJacobians_def setJacobiansMono_def ipz2_of_def
      debugNaN_def setHessians_def jacMono_def Let_def jac_u_def jac_v_def
      node_rot_def ex_defs geo_defs mat_defs)

text \<open>A NaN depth is what the first check does catch: the call ends in the null write.\<close>

lemma setJacobians_nan_depth:
  assumes "z3 (mul34 (w2n nd) pt) = NaN"
  shows "setJacobians cfg prj nd pt = Inl NullWrite"
  using assms
  by (simp add: setJacobians_def setJacobiansMono_def setJacobiansStereo_def ipz2_of_def Let_def)

section \<open>The facade\<close>

lemma graph_ex_eq:
  "graph_ex =
     \<lparr>sba = \<lparr>nodes = [node_ex], tracks = [Track1 (vec4 1 1 2 1)]\<rparr>,
      point_indices = [7 \<mapsto> 0], node_indices = [5 \<mapsto> 0], rosout = []\<rparr>"
  by (simp add: graph_ex_def addPoint_def addNode_def SBANode0_def sba_addNode_def
      sba_addPoint_def cam_ex_def point_ex_def Let_def vec4_def)

text \<open>
  Claim C2 says that \<open>addProj\<close> rejects a projection whose external camera or point
  index was never mapped: it logs, discards, and leaves the graph and both maps as they
  were. In the example graph the external camera index 99 is not mapped. \<open>addProj\<close>
  inserts it into \<open>node_indices\<close> with the internal index 0, finds 0 within bounds,
  attaches the projection to the track of the point, referencing camera 0, and logs
  nothing.
\<close>

theorem addProj_unmapped_camera_attached:
  "node_indices graph_ex 99 = None \<and>
   node_indices (addProj proj_ex obs_ex graph_ex) 99 = Some 0 \<and>
   map projections (tracks (sba graph_ex)) = [[]] \<and>
   map projections (tracks (sba (addProj proj_ex obs_ex graph_ex))) =
     [[Proj3 proj_ex 0 (vec3 1 1 1) True]] \<and>
   rosout (addProj proj_ex obs_ex graph_ex) = []"
proof -
  have "addProj proj_ex obs_ex graph_ex =
    \<lparr>sba = \<lparr>nodes = [node_ex],
             tracks = [\<lparr>point = vec4 1 1 2 1,
                        projections = [Proj3 proj_ex 0 (vec3 1 1 1) True]\<rparr>]\<rparr>,
      point_indices = [7 \<mapsto> 0], node_indices = [5 \<mapsto> 0, 99 \<mapsto> 0], rosout = []\<rparr>"
    by (simp add: graph_ex_eq addProj_def map_index_def sba_addProj_def obs_ex_def Let_def
        Track1_def vec3_def)
  then show ?thesis
    by (simp add: graph_ex_eq Track1_def)
qed

text \<open>On the empty graph the same observation is logged and not attached, and both
  maps grow all the same.\<close>

lemma addProj_unmapped_empty_graph:
  "addProj proj_ex obs_ex SBANode0 =
     SBANode0\<lparr>node_indices := [99 \<mapsto> 0], point_indices := [7 \<mapsto> 0],
              rosout := [FailedToAddProjection 0 0 0 0]\<rparr>"
  by (simp add: addProj_def map_index_def SBANode0_def obs_ex_def Let_def)

text \<open>When both external indices are mapped, \<open>addProj\<close> changes neither map, nor the
  nodes, nor the number of tracks.\<close>

lemma addProj_mapped:
  assumes "node_indices st (camindex msg) = Some c"
    and "point_indices st (pointindex msg) = Some p"
  shows "node_indices (addProj u msg st) = node_indices st \<and>
         point_indices (addProj u msg st) = point_indices st \<and>
         nodes (sba (addProj u msg st)) = nodes (sba st) \<and>
         length (tracks (sba (addProj u msg st))) = length (tracks (sba st))"
  using assms by (simp add: addProj_def map_index_def Let_def sba_addProj_def)

section \<open>The published frame\<close>

lemma those_Some_nth:
  "those xs = Some ys \<Longrightarrow> length ys = length xs \<and> (\<forall>i<length xs. xs ! i = Some (ys ! i))"
proof (induction xs arbitrary: ys)
  case Nil
  then show ?case by simp
next
  case (Cons x xs)
  then obtain y zs where x: "x = Some y" and zs: "those xs = Some zs" and ys: "ys = y # zs"
    by (auto split: option.splits)
  from Cons.IH [OF zs] show ?case
    by (auto simp: x ys nth_Cons split: nat.splits)
qed

lemma those_defined:
  "(\<And>x. x \<in> set xs \<Longrightarrow> x \<noteq> None) \<Longrightarrow> \<exists>ys. those xs = Some ys"
  by (induction xs) (auto split: option.splits)

lemma publishFrame_length:
  assumes "publishFrame li ri img kpts dtors = Some frame"
  shows "length (keypoints frame) = length kpts"
proof -
  from assms obtain ks
    where ks: "those (map (keypointMsg img kpts dtors) [0..<length kpts]) = Some ks"
      and fr: "keypoints frame = ks"
    by (auto simp: publishFrame_def Let_def split: option.splits)
  from those_Some_nth [OF ks] show ?thesis
    by (simp add: fr)
qed

lemma publishFrame_nth:
  assumes "publishFrame li ri img kpts dtors = Some frame" and "i < length kpts"
  shows "keypointMsg img kpts dtors i = Some (keypoints frame ! i)"
proof -
  from assms(1) obtain ks
    where ks: "those (map (keypointMsg img kpts dtors) [0..<length kpts]) = Some ks"
      and fr: "keypoints frame = ks"
    by (auto simp: publishFrame_def Let_def split: option.splits)
  from those_Some_nth [OF ks] assms(2) show ?thesis
    by (auto simp: fr)
qed

text \<open>A frame is published when the descriptor matrix has a row for every keypoint and
  every lookup falls inside the disparity image.\<close>

lemma publishFrame_defined:
  assumes "length kpts \<le> length dtors"
    and "\<And>k. k \<in> set kpts \<Longrightarrow> lookup_disp img k \<noteq> None"
  shows "\<exists>frame. publishFrame li ri img kpts dtors = Some frame"
proof -
  have "\<exists>ks. those (map (keypointMsg img kpts dtors) [0..<length kpts]) = Some ks"
  proof (rule those_defined)
    fix x assume "x \<in> set (map (keypointMsg img kpts dtors) [0..<length kpts])"
    then obtain i where i: "i < length kpts" and x: "x = keypointMsg img kpts dtors i"
      by auto
    from i assms(2) have "lookup_disp img (kpts ! i) \<noteq> None"
      by simp
    with i assms(1) show "x \<noteq> None"
      by (auto simp: x keypointMsg_def Let_def split: option.splits)
  qed
  then show ?thesis
    by (auto simp: publishFrame_def Let_def)
qed

lemma publishFrame_ex:
  "publishFrame \<lparr>ci_header = ()\<rparr> \<lparr>ci_header = ()\<rparr> image_ex kpts_ex dtors_ex = Some frame_ex"
  by (simp add: publishFrame_def keypointMsg_def lookup_disp_def at_float_def image_ex_def
      kpts_ex_def dtors_ex_def frame_ex_def Let_def)

text \<open>
  Claim C7. For every keypoint of a published frame, the disparity is read from the
  disparity image at row \<open>y\<close> and column \<open>y\<close>, where \<open>y\<close> is the truncated y coordinate
  of the keypoint; the x coordinate takes no part. The field \<open>d\<close> holds the value read
  when that is positive.
\<close>

theorem publishFrame_disparity_read_at_y_y:
  assumes "publishFrame li ri img kpts dtors = Some frame" and "i < length kpts"
  shows "\<exists>yi v. to_int (pt_y (kpts ! i)) = Some yi \<and> at_float img yi yi = Some v \<and>
           k_d (keypoints frame ! i) = (if Fin 0 < v then v else Fin 10)"
proof -
  from publishFrame_nth [OF assms] obtain k
    where k: "keypoints frame ! i = k" and km: "keypointMsg img kpts dtors i = Some k"
    by simp
  from km obtain v where v: "lookup_disp img (kpts ! i) = Some v"
    and kd: "k_d k = (if Fin 0 < v then v else Fin 10)"
    by (auto simp: keypointMsg_def Let_def split: option.splits if_splits)
  from v obtain yi where "to_int (pt_y (kpts ! i)) = Some yi" and "at_float img yi yi = Some v"
    by (auto simp: lookup_disp_def split: option.splits)
  with kd show ?thesis
    unfolding k by blast
qed

text \<open>The first example keypoint lies at \<open>(x, y) = (3, 2.5)\<close>: its disparity is the 5
  of row 2, column 2, not the 7 of row 2, column 3.\<close>

theorem publishFrame_disparity_read_at_y_y_witness:
  "publishFrame \<lparr>ci_header = ()\<rparr> \<lparr>ci_header = ()\<rparr> image_ex kpts_ex dtors_ex = Some frame_ex \<and>
   0 < length kpts_ex \<and>
   pt_x (kpts_ex ! 0) = Fin 3 \<and>
   to_int (pt_y (kpts_ex ! 0)) = Some 2 \<and>
   at_float image_ex 2 3 = Some (Fin 7) \<and>
   at_float image_ex 2 2 = Some (Fin 5) \<and>
   k_d (keypoints frame_ex ! 0) = Fin 5"
proof -
  have n: "0 < length kpts_ex"
    by (simp add: kpts_ex_def)
  from publishFrame_disparity_read_at_y_y [OF publishFrame_ex n] obtain yi v
    where "to_int (pt_y (kpts_ex ! 0)) = Some yi" and "at_float image_ex yi yi = Some v"
      and "k_d (keypoints frame_ex ! 0) = (if Fin 0 < v then v else Fin 10)"
    by blast
  then have "k_d (keypoints frame_ex ! 0) = Fin 5"
    by (auto simp: kpts_ex_def at_float_def image_ex_def)
  with n publishFrame_ex show ?thesis
    by (simp add: kpts_ex_def at_float_def image_ex_def)
qed

text \<open>
  Claim C10. For every keypoint of a published frame, \<open>goodPt\<close> holds exactly when the
  disparity looked up for it is greater than 0; the field \<open>d\<close> is that disparity when
  \<open>goodPt\<close> holds and 10 otherwise. The frame has one keypoint for each detected one.
\<close>

theorem publishFrame_goodPt:
  assumes "publishFrame li ri img kpts dtors = Some frame" and "i < length kpts"
  shows "length (keypoints frame) = length kpts \<and>
     (\<exists>disp. lookup_disp img (kpts ! i) = Some disp \<and>
        (goodPt (keypoints frame ! i) \<longleftrightarrow> Fin 0 < disp) \<and>
        k_d (keypoints frame ! i) = (if goodPt (keypoints frame ! i) then disp else Fin 10))"
proof -
  from publishFrame_nth [OF assms] obtain k
    where k: "keypoints frame ! i = k" and km: "keypointMsg img kpts dtors i = Some k"
    by simp
  from km have "\<exists>disp. lookup_disp img (kpts ! i) = Some disp \<and>
        (goodPt k \<longleftrightarrow> Fin 0 < disp) \<and> k_d k = (if goodPt k then disp else Fin 10)"
    by (auto simp: keypointMsg_def Let_def split: option.splits if_splits)
  with publishFrame_length [OF assms(1)] show ?thesis
    unfolding k by simp
qed

theorem publishFrame_goodPt_witness:
  "publishFrame \<lparr>ci_header = ()\<rparr> \<lparr>ci_header = ()\<rparr> image_ex kpts_ex dtors_ex = Some frame_ex \<and>
   1 < length kpts_ex \<and>
   length (keypoints frame_ex) = 2 \<and>
   lookup_disp image_ex (kpts_ex ! 1) = Some (Fin (- 1)) \<and>
   \<not> goodPt (keypoints frame_ex ! 1) \<and>
   k_d (keypoints frame_ex ! 1) = Fin 10"
proof -
  have n: "1 < length kpts_ex"
    by (simp add: kpts_ex_def)
  have l: "lookup_disp image_ex (kpts_ex ! 1) = Some (Fin (- 1))"
    by (simp add: lookup_disp_def at_float_def image_ex_def kpts_ex_def)
  from publishFrame_goodPt [OF publishFrame_ex n] l
  have "length (keypoints frame_ex) = length kpts_ex \<and> \<not> goodPt (keypoints frame_ex ! 1) \<and>
        k_d (keypoints frame_ex ! 1) = Fin 10"
    by auto
  with n l publishFrame_ex show ?thesis
    by (simp add: kpts_ex_def)
qed

end
